theory Spec2Isabelle
  imports Main
begin

section \<open>Text\<close>

text \<open>
  A Python \<open>str\<close> is a sequence of Unicode code points, and \<open>len\<close>, slicing,
  \<open>strip\<close> and \<open>split\<close> all count code points.  The bot produces the bullet U+2022 and
  Cyrillic messages, which do not fit an 8-bit \<open>char\<close>, so a text is a list of code points.
  \<open>str\<close> embeds an ASCII literal.
\<close>

type_synonym pystr = "nat list"

definition str :: "string \<Rightarrow> pystr" where
  "str s = map of_char s"

definition backslash :: nat where
  "backslash = 92"

definition newline :: nat where
  "newline = 10"

definition bullet :: nat where
  "bullet = 8226"

text \<open>
  \<open>str.isspace\<close> for one code point: the characters \<open>str.strip()\<close> removes when it is
  called without an argument.
\<close>

definition isspace :: "nat \<Rightarrow> bool" where
  "isspace c \<longleftrightarrow>
     (9 \<le> c \<and> c \<le> 13) \<or> (28 \<le> c \<and> c \<le> 32) \<or> c = 133 \<or> c = 160 \<or> c = 5760 \<or>
     (8192 \<le> c \<and> c \<le> 8202) \<or> c = 8232 \<or> c = 8233 \<or> c = 8239 \<or> c = 8287 \<or> c = 12288"

definition strip :: "pystr \<Rightarrow> pystr" where
  "strip s = rev (dropWhile isspace (rev (dropWhile isspace s)))"

definition startswith :: "pystr \<Rightarrow> pystr \<Rightarrow> bool" where
  "startswith s p \<longleftrightarrow> take (length p) s = p"

text \<open>
  \<open>s.split("\n")\<close>: the pieces between newlines; a text with \<open>n\<close> newlines has
  \<open>n + 1\<close> pieces, so the empty text has one empty piece and a text that ends with a
  newline has an empty last piece.
\<close>

fun split_nl :: "pystr \<Rightarrow> pystr list" where
  "split_nl [] = [] # []"
| "split_nl (c # cs) =
     (if c = newline then [] # split_nl cs
      else (case split_nl cs of [] \<Rightarrow> [c] # [] | l # ls \<Rightarrow> (c # l) # ls))"

text \<open>
  \<open>s.replace(old, new)\<close>: every non-overlapping occurrence of \<open>old\<close>, leftmost first,
  becomes \<open>new\<close>.  For the empty pattern Python puts \<open>new\<close> before every character and
  at the end.
\<close>

fun replace_scan :: "pystr \<Rightarrow> pystr \<Rightarrow> pystr \<Rightarrow> pystr" where
  "replace_scan old new [] = []"
| "replace_scan old new (c # cs) =
     (if old \<noteq> [] \<and> take (length old) (c # cs) = old
      then new @ replace_scan old new (drop (length old) (c # cs))
      else c # replace_scan old new cs)"

definition replace :: "pystr \<Rightarrow> pystr \<Rightarrow> pystr \<Rightarrow> pystr" where
  "replace s old new =
     (if old = [] then new @ concat (map (\<lambda>c. c # new) s) else replace_scan old new s)"

section \<open>Output formatter\<close>

text \<open>\<open>clean_markdown(text)\<close>: \<open>text.replace('\\', '')\<close>.\<close>

definition clean_markdown :: "pystr \<Rightarrow> pystr" where
  "clean_markdown text = replace text [backslash] []"

text \<open>
  One pass of the loop body of \<open>format_list_as_markdown\<close>: the text appended to
  \<open>formatted_text\<close> for one line.  The test looks at the stripped line; the slice
  \<open>line[1:]\<close> is taken from the line as it is.
\<close>

definition format_line :: "pystr \<Rightarrow> pystr" where
  "format_line line =
     (if startswith (strip line) (str ''-'')
      then [bullet, 32] @ strip (drop 1 line) @ [newline]
      else if startswith (strip line) (str ''1.'') \<or> startswith (strip line) (str ''2.'') \<or>
              startswith (strip line) (str ''3.'') \<or> startswith (strip line) (str ''4.'') \<or>
              startswith (strip line) (str ''5.'')
      then strip line @ [newline]
      else strip line @ [newline])"

fun format_loop :: "pystr \<Rightarrow> pystr list \<Rightarrow> pystr" where
  "format_loop formatted_text [] = formatted_text"
| "format_loop formatted_text (line # lines) =
     format_loop (formatted_text @ format_line line) lines"

definition format_list_as_markdown :: "pystr \<Rightarrow> pystr" where
  "format_list_as_markdown response_text = format_loop [] (split_nl response_text)"

section \<open>Chunker\<close>

text \<open>
  \<open>range(start, stop, step)\<close> for a positive step.  Python raises \<open>ValueError\<close> for
  step 0 before the loop starts; the caller below tests for it, and the guard here only
  makes the function total.
\<close>

function py_range :: "nat \<Rightarrow> nat \<Rightarrow> nat \<Rightarrow> nat list" where
  "py_range i stop step =
     (if step = 0 \<or> stop \<le> i then [] else i # py_range (i + step) stop step)"
  by pat_completeness auto
termination
  by (relation "measure (\<lambda>(i, stop, step). stop - i)") auto

text \<open>The slices \<open>content[i:i + max_chunk_size]\<close> in the order the loop takes them.\<close>

definition chunks :: "pystr \<Rightarrow> nat \<Rightarrow> pystr list" where
  "chunks content max_chunk_size =
     map (\<lambda>i. take max_chunk_size (drop i content))
       (py_range 0 (length content) max_chunk_size)"

section \<open>Collaborators\<close>

text \<open>
  The handlers talk to three collaborators: the PostgreSQL table \<open>user_context\<close>
  (through asyncpg), the Telegram chat (\<open>reply_text\<close>, \<open>delete\<close>) and the Qwen
  application (\<open>dashscope.Application.call\<close>).  Every call to the database or to Telegram
  may raise.  The world carries a clock that counts these calls and a schedule \<open>fault\<close>:
  the call made at clock value \<open>n\<close> raises exactly when \<open>fault n\<close> holds.  Since a run
  is deterministic, every pattern of failures over one run is some schedule.
\<close>

datatype error =
    ConnectionError | QueryError | CloseError | JSONDecodeError
  | TransportError | LLMError | KeyError | ValueError

record turn =
  role :: pystr
  content :: pystr

text \<open>
  The column \<open>context\<close> of one row.  \<open>json.dumps\<close> and \<open>json.loads\<close> are the
  library's and are not modelled character by character: the text \<open>json.dumps\<close> writes
  for a history is \<open>Dumped\<close> of it, and \<open>json.loads\<close> reads it back; \<open>Blank\<close> is a
  falsy value (empty text or NULL); \<open>Malformed\<close> is a text \<open>json.loads\<close> rejects.  The
  bot only ever writes lists of turns with the keys \<open>role\<close> and \<open>content\<close>; a column
  holding some other JSON value is outside the model.
\<close>

datatype column = Dumped "turn list" | Blank | Malformed

text \<open>
  What \<open>Application.call\<close> gives back: it raises, or returns a falsy response, or a
  response without the key \<open>output\<close>, or one whose \<open>output\<close> has no \<open>text\<close>, or a
  response with \<open>output.text\<close>.
\<close>

datatype llm_response = CallRaises | Absent | MissingOutput | MissingText | Output pystr

type_synonym chat_id = int

record world =
  clock :: nat
  fault :: "nat \<Rightarrow> bool"
  llm :: "pystr \<Rightarrow> turn list \<Rightarrow> llm_response"
  table :: "chat_id \<rightharpoonup> column"
  outbox :: "pystr list"
  deleted :: "nat list"
  llm_calls :: "(pystr \<times> turn list) list"

definition external :: "error \<Rightarrow> world \<Rightarrow> (error + unit) \<times> world" where
  "external e w =
     (if fault w (clock w) then (Inl e, w\<lparr>clock := Suc (clock w)\<rparr>)
      else (Inr (), w\<lparr>clock := Suc (clock w)\<rparr>))"

text \<open>\<open>get_db_connection\<close> logs a failure of \<open>asyncpg.connect\<close> and raises it again.\<close>

definition get_db_connection :: "world \<Rightarrow> (error + unit) \<times> world" where
  "get_db_connection w = external ConnectionError w"

definition conn_close :: "world \<Rightarrow> (error + unit) \<times> world" where
  "conn_close w = external CloseError w"

definition conn_fetchrow :: "chat_id \<Rightarrow> world \<Rightarrow> (error + column option) \<times> world" where
  "conn_fetchrow chat_id w =
     (case external QueryError w of
        (Inl e, w') \<Rightarrow> (Inl e, w')
      | (Inr _, w') \<Rightarrow> (Inr (table w' chat_id), w'))"

text \<open>\<open>INSERT ... ON CONFLICT (chat_id) DO UPDATE SET context = EXCLUDED.context\<close>.\<close>

definition conn_upsert :: "chat_id \<Rightarrow> column \<Rightarrow> world \<Rightarrow> (error + unit) \<times> world" where
  "conn_upsert chat_id c w =
     (case external QueryError w of
        (Inl e, w') \<Rightarrow> (Inl e, w')
      | (Inr _, w') \<Rightarrow> (Inr (), w'\<lparr>table := (table w')(chat_id \<mapsto> c)\<rparr>))"

text \<open>
  \<open>update.message.reply_text(text)\<close> returns the message sent; it is named by its
  position in the outbox.  \<open>message.delete()\<close> records that position.
\<close>

definition reply_text :: "pystr \<Rightarrow> world \<Rightarrow> (error + nat) \<times> world" where
  "reply_text text w =
     (case external TransportError w of
        (Inl e, w') \<Rightarrow> (Inl e, w')
      | (Inr _, w') \<Rightarrow> (Inr (length (outbox w')), w'\<lparr>outbox := outbox w' @ [text]\<rparr>))"

definition message_delete :: "nat \<Rightarrow> world \<Rightarrow> (error + unit) \<times> world" where
  "message_delete message w =
     (case external TransportError w of
        (Inl e, w') \<Rightarrow> (Inl e, w')
      | (Inr _, w') \<Rightarrow> (Inr (), w'\<lparr>deleted := deleted w' @ [message]\<rparr>))"

definition application_call :: "pystr \<Rightarrow> turn list \<Rightarrow> world \<Rightarrow> llm_response \<times> world" where
  "application_call prompt messages w =
     (llm w prompt messages, w\<lparr>llm_calls := llm_calls w @ [(prompt, messages)]\<rparr>)"

definition json_dumps :: "turn list \<Rightarrow> column" where
  "json_dumps context = Dumped context"

definition json_loads :: "column \<Rightarrow> error + turn list" where
  "json_loads c = (case c of Dumped h \<Rightarrow> Inr h | _ \<Rightarrow> Inl JSONDecodeError)"

section \<open>Context store\<close>

text \<open>
  \<open>save_context(chat_id, context)\<close>: the connection is opened before the \<open>try\<close>, so its
  failure leaves the function; a failure of \<open>execute\<close> is logged and swallowed; the
  \<open>finally\<close> closes the connection on every path.
\<close>

definition save_context :: "chat_id \<Rightarrow> turn list \<Rightarrow> world \<Rightarrow> (error + unit) \<times> world" where
  "save_context chat_id context w =
     (case get_db_connection w of
        (Inl e, w1) \<Rightarrow> (Inl e, w1)
      | (Inr conn, w1) \<Rightarrow>
          (let w2 = snd (conn_upsert chat_id (json_dumps context) w1)
           in conn_close w2))"

text \<open>
  Lines 81 to 86 of \<open>get_context\<close>, on the row that \<open>fetchrow\<close> returned: a missing
  row or a falsy column gives \<open>[]\<close>; otherwise the column goes through \<open>json.loads\<close>,
  which may raise.
\<close>

definition row_context :: "column option \<Rightarrow> error + turn list" where
  "row_context result =
     (case result of
        None \<Rightarrow> Inr []
      | Some c \<Rightarrow> if c = Blank then Inr [] else json_loads c)"

text \<open>
  \<open>get_context(chat_id)\<close>: the same shape as \<open>save_context\<close>.  Any exception inside
  the \<open>try\<close>, of \<open>fetchrow\<close> or of \<open>json.loads\<close>, is logged and \<open>[]\<close> is returned.
  An exception of the \<open>finally\<close> replaces the value being returned.
\<close>

definition get_context :: "chat_id \<Rightarrow> world \<Rightarrow> (error + turn list) \<times> world" where
  "get_context chat_id w =
     (case get_db_connection w of
        (Inl e, w1) \<Rightarrow> (Inl e, w1)
      | (Inr conn, w1) \<Rightarrow>
          (let (returned, w2) =
             (case conn_fetchrow chat_id w1 of
                (Inl e, w2) \<Rightarrow> ([], w2)
              | (Inr result, w2) \<Rightarrow>
                  (case row_context result of
                     Inl e \<Rightarrow> ([], w2)
                   | Inr h \<Rightarrow> (h, w2)))
           in (case conn_close w2 of
                 (Inl e, w3) \<Rightarrow> (Inl e, w3)
               | (Inr _, w3) \<Rightarrow> (Inr returned, w3))))"

section \<open>Delivery\<close>

fun send_loop :: "pystr list \<Rightarrow> world \<Rightarrow> (error + unit) \<times> world" where
  "send_loop [] w = (Inr (), w)"
| "send_loop (chunk # rest) w =
     (case reply_text chunk w of
        (Inl e, w') \<Rightarrow> (Inl e, w')
      | (Inr _, w') \<Rightarrow> send_loop rest w')"

text \<open>
  \<open>send_message_in_chunks(update, content, max_chunk_size)\<close>.  \<open>range\<close> raises
  \<open>ValueError\<close> for step 0 and is empty for a negative step (start 0 is not above the
  stop).  The parameter \<open>content\<close> is written \<open>content'\<close>, the plain name being the
  field of a turn.
\<close>

definition send_message_in_chunks :: "pystr \<Rightarrow> int \<Rightarrow> world \<Rightarrow> (error + unit) \<times> world" where
  "send_message_in_chunks content' max_chunk_size w =
     (if max_chunk_size = 0 then (Inl ValueError, w)
      else if max_chunk_size < 0 then (Inr (), w)
      else send_loop (chunks content' (nat max_chunk_size)) w)"

section \<open>Conversation orchestrator\<close>

definition typing_text :: pystr where
  "typing_text = [1055, 1077, 1095, 1072, 1090, 1072, 1077, 1090, 46, 46, 46]"

definition no_response_text :: pystr where
  "no_response_text =
     [1053, 1077, 32, 1091, 1076, 1072, 1083, 1086, 1089, 1100, 32, 1087, 1086, 1083, 1091,
      1095, 1080, 1090, 1100, 32, 1086, 1090, 1074, 1077, 1090, 32, 1086, 1090, 32, 65, 80,
      73, 46, 32, 1055, 1086, 1087, 1088, 1086, 1073, 1091, 1081, 1090, 1077, 32, 1087, 1086,
      1079, 1078, 1077, 46]"

definition request_error_text :: pystr where
  "request_error_text =
     [1055, 1088, 1086, 1080, 1079, 1086, 1096, 1083, 1072, 32, 1086, 1096, 1080, 1073, 1082,
      1072, 32, 1087, 1088, 1080, 32, 1086, 1090, 1087, 1088, 1072, 1074, 1082, 1077, 32,
      1079, 1072, 1087, 1088, 1086, 1089, 1072, 46]"

text \<open>
  Lines 172 to 177 of \<open>handle_message\<close>: the formatted text is sent; any exception of that
  is logged and the raw text is sent instead.
\<close>

definition dispatch :: "pystr \<Rightarrow> pystr \<Rightarrow> world \<Rightarrow> (error + unit) \<times> world" where
  "dispatch clean_output output_content w =
     (case send_message_in_chunks clean_output 4096 w of
        (Inl e, w') \<Rightarrow> send_message_in_chunks output_content 4096 w'
      | (Inr u, w') \<Rightarrow> (Inr u, w'))"

text \<open>
  The body of the outer \<open>try\<close> (lines 155 to 187).  \<open>context_data\<close> already ends with
  the user turn.  Reading \<open>response['output']['text']\<close> raises when there is no text.
\<close>

definition exchange :: "chat_id \<Rightarrow> pystr \<Rightarrow> turn list \<Rightarrow> world \<Rightarrow> (error + unit) \<times> world" where
  "exchange chat_id user_message_escaped context_data w =
     (case reply_text typing_text w of
        (Inl e, w1) \<Rightarrow> (Inl e, w1)
      | (Inr typing_message, w1) \<Rightarrow>
          (let messages = map (\<lambda>msg. \<lparr>role = role msg, content = content msg\<rparr>) context_data;
               (response, w2) = application_call user_message_escaped messages w1
           in (case response of
                 CallRaises \<Rightarrow> (Inl LLMError, w2)
               | MissingText \<Rightarrow> (Inl KeyError, w2)
               | Output output_content \<Rightarrow>
                   (let formatted_output = format_list_as_markdown output_content;
                        clean_output = clean_markdown formatted_output
                    in (case dispatch clean_output output_content w2 of
                          (Inl e, w3) \<Rightarrow> (Inl e, w3)
                        | (Inr _, w3) \<Rightarrow>
                            (case save_context chat_id
                                    (context_data @
                                       [\<lparr>role = str ''assistant'', content = clean_output\<rparr>]) w3 of
                               (Inl e, w4) \<Rightarrow> (Inl e, w4)
                             | (Inr _, w4) \<Rightarrow> message_delete typing_message w4)))
               | _ \<Rightarrow>
                   (case reply_text no_response_text w2 of
                      (Inl e, w3) \<Rightarrow> (Inl e, w3)
                    | (Inr _, w3) \<Rightarrow> message_delete typing_message w3))))"

text \<open>
  \<open>handle_message\<close>.  \<open>get_context\<close> is called before the \<open>try\<close>, so an exception
  of it leaves the handler.  The \<open>except\<close> sends the error message; an exception of that
  call leaves the handler too.
\<close>

definition handle_message :: "chat_id \<Rightarrow> pystr \<Rightarrow> world \<Rightarrow> (error + unit) \<times> world" where
  "handle_message chat_id user_message w =
     (case get_context chat_id w of
        (Inl e, w1) \<Rightarrow> (Inl e, w1)
      | (Inr loaded, w1) \<Rightarrow>
          (let context_data = (if loaded = [] then [] else loaded);
               user_message_escaped = clean_markdown user_message;
               context_data =
                 context_data @ [\<lparr>role = str ''user'', content = user_message_escaped\<rparr>]
           in (case exchange chat_id user_message_escaped context_data w1 of
                 (Inl e, w2) \<Rightarrow>
                   (case reply_text request_error_text w2 of
                      (Inl e', w3) \<Rightarrow> (Inl e', w3)
                    | (Inr _, w3) \<Rightarrow> (Inr (), w3))
               | (Inr u, w2) \<Rightarrow> (Inr u, w2))))"

section \<open>Sample worlds\<close>

text \<open>
  A world in which nothing fails and the application answers \<open>Hi there\<close>, and
  variants of it: the calls of one run of \<open>handle_message\<close> on a short reply are
  numbered 0 (connect), 1 (\<open>fetchrow\<close>), 2 (close), 3 (the typing message), 4 (the one
  chunk of the reply), 5 to 7 (connect, \<open>execute\<close>, close) and 8 (delete of the typing
  message).
\<close>

definition calm_world :: world where
  "calm_world =
     \<lparr>clock = 0, fault = (\<lambda>n. False), llm = (\<lambda>prompt messages. Output (str ''Hi there'')),
      table = Map.empty, outbox = [], deleted = [], llm_calls = []\<rparr>"

definition storage_down :: world where
  "storage_down = calm_world\<lparr>fault := (\<lambda>n. n = 0)\<rparr>"

definition query_down :: world where
  "query_down =
     calm_world\<lparr>fault := (\<lambda>n. n = 1),
                table := [7 \<mapsto> Dumped [\<lparr>role = str ''user'', content = str ''Hello''\<rparr>]]\<rparr>"

definition silent_world :: world where
  "silent_world = calm_world\<lparr>llm := (\<lambda>prompt messages. Absent)\<rparr>"

definition typing_down :: world where
  "typing_down = calm_world\<lparr>fault := (\<lambda>n. n = 3)\<rparr>"

definition dispatch_down :: world where
  "dispatch_down = calm_world\<lparr>fault := (\<lambda>n. n = 4)\<rparr>"

definition delete_down :: world where
  "delete_down = calm_world\<lparr>fault := (\<lambda>n. n = 8)\<rparr>"

text \<open>A world whose table already holds one exchange of chat 7.\<close>

definition returning_world :: world where
  "returning_world =
     calm_world\<lparr>table :=
       [7 \<mapsto> Dumped [\<lparr>role = str ''user'', content = str ''Hello''\<rparr>,
                      \<lparr>role = str ''assistant'', content = str ''Hi there'' @ [newline]\<rparr>]]\<rparr>"

text \<open>The text \<open>"- a\n- b\n"\<close>.\<close>

definition two_bullets :: pystr where
  "two_bullets = str ''- a'' @ [newline] @ str ''- b'' @ [newline]"

section \<open>Properties of the formatter and the chunker\<close>

lemma replace_scan_single: "replace_scan [x] [] s = filter (\<lambda>c. c \<noteq> x) s"
  by (induction s) auto

lemma clean_markdown_filter: "clean_markdown t = filter (\<lambda>c. c \<noteq> backslash) t"
  by (simp add: clean_markdown_def replace_def replace_scan_single)

text \<open>
  C7.  \<open>clean_markdown\<close> returns its argument with every backslash removed, whatever
  follows it, and all other characters kept in their order; the text \<open>a\<close>, backslash,
  \<open>*b\<close> becomes \<open>a*b\<close>.
\<close>

theorem clean_markdown_deletes_backslashes:
  "clean_markdown t = filter (\<lambda>c. c \<noteq> backslash) t \<and>
   clean_markdown (str ''a'' @ [backslash] @ str ''*b'') = str ''a*b''"
  by (simp add: clean_markdown_filter str_def backslash_def)

text \<open>
  C10.  \<open>clean_markdown\<close> is idempotent: a second application changes nothing, so the
  second stripping in the pipeline removes nothing from a text that was already stripped.
\<close>

theorem clean_markdown_idempotent:
  "clean_markdown (clean_markdown t) = clean_markdown t"
  by (simp add: clean_markdown_filter)

lemma concat_slices:
  "0 < L \<Longrightarrow>
   concat (map (\<lambda>i. take L (drop i T)) (py_range i (length T) L)) = drop i T"
proof (induction i "length T" L rule: py_range.induct)
  case (1 i step)
  show ?case
  proof (cases "length T \<le> i")
    case True
    then show ?thesis by simp
  next
    case False
    with 1 have rest:
      "concat (map (\<lambda>i. take step (drop i T)) (py_range (i + step) (length T) step)) =
       drop (i + step) T"
      by simp
    have "take step (drop i T) @ drop (i + step) T = drop i T"
      by (metis add.commute append_take_drop_id drop_drop)
    with False 1(2) rest show ?thesis
      by (subst py_range.simps) (simp del: py_range.simps)
  qed
qed

lemma format_loop_concat: "format_loop acc ls = acc @ concat (map format_line ls)"
  by (induction ls arbitrary: acc) auto

lemma strip_keeps_head:
  "\<not> isspace c \<Longrightarrow> strip (c # cs) = c # rev (dropWhile isspace (rev cs))"
  by (simp add: strip_def dropWhile_append3)

text \<open>
  A line whose first character is the dash is rewritten as specified: the bullet, a
  blank, and the rest of the line stripped.
\<close>

lemma format_line_dash_first:
  "format_line (45 # rest) = [bullet, 32] @ strip rest @ [newline]"
proof -
  have "\<not> isspace 45" by (simp add: isspace_def)
  then have "strip (45 # rest) = 45 # rev (dropWhile isspace (rev rest))"
    by (rule strip_keeps_head)
  then show ?thesis
    by (simp add: format_line_def startswith_def str_def)
qed

text \<open>
  C5.  The rule for dash lines (bullet, then the content after the dash, trimmed) does
  not hold for a line with blanks before the dash.  On the line \<open>"  - a"\<close> the
  stripped line starts with \<open>-\<close>, but \<open>line[1:]\<close> drops the first blank and not the
  dash: the result is the bullet followed by \<open>- a\<close> and not by \<open>a\<close>.
\<close>

theorem format_indented_dash:
  "format_list_as_markdown (str ''  - a'') = [bullet, 32] @ str ''- a'' @ [newline]"
  by (simp add: format_list_as_markdown_def format_line_def str_def strip_def
      startswith_def isspace_def newline_def bullet_def)

text \<open>
  C6, as worded in the specification, fails on its first sample: applied to
  \<open>"- a\n- b\n"\<close> the result is not \<open>"\<bullet> a\n\<bullet> b\n"\<close>.
\<close>

theorem format_trailing_newline_counterexample:
  "format_list_as_markdown (str ''- a'' @ [newline] @ str ''- b'' @ [newline]) \<noteq>
   [bullet, 32] @ str ''a'' @ [newline] @ [bullet, 32] @ str ''b'' @ [newline]"
  by (simp add: format_list_as_markdown_def format_line_def str_def strip_def
      startswith_def isspace_def newline_def bullet_def)

lemma split_nl_nonempty: "split_nl t \<noteq> []"
  by (induction t) (auto split: list.splits)

lemma split_nl_pieces: "p \<in> set (split_nl t) \<Longrightarrow> newline \<notin> set p"
proof (induction t arbitrary: p)
  case Nil
  then show ?case by simp
next
  case (Cons c cs)
  then show ?case
    by (cases "split_nl cs") (auto split: if_splits)
qed

lemma length_split_nl: "length (split_nl t) = Suc (count_list t newline)"
  by (induction t) (auto split: list.splits simp: split_nl_nonempty)

lemma set_strip: "set (strip l) \<subseteq> set l"
proof
  fix x
  assume "x \<in> set (strip l)"
  then have "x \<in> set (dropWhile isspace (rev (dropWhile isspace l)))"
    by (simp add: strip_def)
  then have "x \<in> set (rev (dropWhile isspace l))" by (rule set_dropWhileD)
  then have "x \<in> set (dropWhile isspace l)" by simp
  then show "x \<in> set l" by (rule set_dropWhileD)
qed

lemma format_line_body:
  "format_line l =
     (if startswith (strip l) (str ''-'') then [bullet, 32] @ strip (drop 1 l) else strip l) @
     [newline]"
  by (simp add: format_line_def)

lemma body_no_newline:
  assumes "newline \<notin> set l"
  shows "newline \<notin> set (butlast (format_line l))"
proof -
  have "newline \<notin> set (strip l)" using assms set_strip [of l] by auto
  moreover have "newline \<notin> set (strip (drop 1 l))"
    using assms set_strip [of "drop 1 l"] by (auto dest: in_set_dropD)
  ultimately show ?thesis
    by (simp add: format_line_body newline_def bullet_def)
qed

lemma split_nl_line:
  "newline \<notin> set b \<Longrightarrow> split_nl (b @ newline # rest) = b # split_nl rest"
  by (induction b) (auto split: list.splits simp: split_nl_nonempty)

lemma split_nl_lines:
  "\<forall>p \<in> set ps. newline \<notin> set (butlast (format_line p)) \<Longrightarrow>
   split_nl (concat (map format_line ps)) =
     map (\<lambda>p. butlast (format_line p)) ps @ ([] # [])"
proof (induction ps)
  case Nil
  then show ?case by simp
next
  case (Cons p ps)
  have "format_line p = butlast (format_line p) @ [newline]"
    by (simp add: format_line_body)
  then have "concat (map format_line (p # ps)) =
      butlast (format_line p) @ newline # concat (map format_line ps)"
    by (metis append.assoc append_Cons append_Nil concat.simps(2) list.simps(9))
  with Cons show ?case by (simp add: split_nl_line del: concat.simps)
qed

text \<open>
  C6, amended.  The result is the rewritten lines in order, each one followed by
  exactly one newline, the last line too.  In full: every line of the input is
  rewritten to a text without a newline (the bullet, a blank and the stripped rest for a
  dash line, the stripped line otherwise) and gets one newline appended; so splitting
  the result at its newlines gives back exactly the rewritten lines and one empty last
  piece, and the result has as many newlines as the input has lines, one more than the
  input has newlines.  A text that ends with a newline has an empty last line, which
  gives one more newline: \<open>"- a\n- b\n"\<close> becomes \<open>"\<bullet> a\n\<bullet> b\n\n"\<close> and
  \<open>"1. a\n"\<close> becomes \<open>"1. a\n\n"\<close>; without the final newline, \<open>"- a\n- b"\<close>
  becomes \<open>"\<bullet> a\n\<bullet> b\n"\<close> and \<open>"1. a"\<close> becomes \<open>"1. a\n"\<close>.
\<close>

theorem format_newline_after_each_line:
  "format_list_as_markdown t = concat (map format_line (split_nl t)) \<and>
   format_line l \<noteq> [] \<and> last (format_line l) = newline \<and>
   format_line l =
     (if startswith (strip l) (str ''-'') then [bullet, 32] @ strip (drop 1 l) else strip l) @
     [newline] \<and>
   (\<forall>p \<in> set (split_nl t).
      newline \<notin> set p \<and> newline \<notin> set (butlast (format_line p))) \<and>
   split_nl (format_list_as_markdown t) =
     map (\<lambda>p. butlast (format_line p)) (split_nl t) @ ([] # []) \<and>
   count_list (format_list_as_markdown t) newline = length (split_nl t) \<and>
   length (split_nl t) = Suc (count_list t newline) \<and>
   format_list_as_markdown (str ''- a'' @ [newline] @ str ''- b'' @ [newline]) =
     [bullet, 32] @ str ''a'' @ [newline] @ [bullet, 32] @ str ''b'' @ [newline, newline] \<and>
   format_list_as_markdown (str ''1. a'' @ [newline]) = str ''1. a'' @ [newline, newline] \<and>
   format_list_as_markdown (str ''- a'' @ [newline] @ str ''- b'') =
     [bullet, 32] @ str ''a'' @ [newline] @ [bullet, 32] @ str ''b'' @ [newline] \<and>
   format_list_as_markdown (str ''1. a'') = str ''1. a'' @ [newline]"
proof -
  have general: "format_list_as_markdown t = concat (map format_line (split_nl t))"
    by (simp add: format_list_as_markdown_def format_loop_concat)
  have ends: "format_line l \<noteq> [] \<and> last (format_line l) = newline"
    by (simp add: format_line_def)
  have pieces: "\<forall>p \<in> set (split_nl t).
      newline \<notin> set p \<and> newline \<notin> set (butlast (format_line p))"
    using split_nl_pieces [of _ t] body_no_newline by blast
  then have "\<forall>p \<in> set (split_nl t). newline \<notin> set (butlast (format_line p))" by blast
  from split_nl_lines [OF this]
  have lines: "split_nl (format_list_as_markdown t) =
      map (\<lambda>p. butlast (format_line p)) (split_nl t) @ ([] # [])"
    by (simp only: general)
  have "Suc (count_list (format_list_as_markdown t) newline) =
      length (split_nl (format_list_as_markdown t))"
    by (simp only: length_split_nl)
  also have "\<dots> = Suc (length (split_nl t))"
    by (simp add: lines)
  finally have count: "count_list (format_list_as_markdown t) newline = length (split_nl t)"
    by simp
  have samples:
    "format_list_as_markdown (str ''- a'' @ [newline] @ str ''- b'' @ [newline]) =
       [bullet, 32] @ str ''a'' @ [newline] @ [bullet, 32] @ str ''b'' @ [newline, newline]"
    "format_list_as_markdown (str ''1. a'' @ [newline]) = str ''1. a'' @ [newline, newline]"
    "format_list_as_markdown (str ''- a'' @ [newline] @ str ''- b'') =
       [bullet, 32] @ str ''a'' @ [newline] @ [bullet, 32] @ str ''b'' @ [newline]"
    "format_list_as_markdown (str ''1. a'') = str ''1. a'' @ [newline]"
    by (simp_all add: format_list_as_markdown_def format_line_def str_def strip_def
        startswith_def isspace_def newline_def bullet_def)
  from general ends format_line_body [of l] pieces lines count length_split_nl [of t] samples
  show ?thesis by blast
qed

lemma split_two_bullets: "split_nl two_bullets = [str ''- a'', str ''- b'', []]"
  by (simp add: two_bullets_def str_def newline_def)

lemma format_line_samples:
  "format_line (str ''- a'') = [bullet, 32] @ str ''a'' @ [newline]"
  "format_line (str ''- b'') = [bullet, 32] @ str ''b'' @ [newline]"
  "format_line [] = [newline]"
  by (simp_all add: format_line_def str_def strip_def startswith_def isspace_def)

theorem format_newline_after_each_line_witness:
  "split_nl two_bullets = [str ''- a'', str ''- b'', []] \<and>
   newline \<notin> set (str ''- a'') \<and>
   newline \<notin> set (butlast (format_line (str ''- a''))) \<and>
   split_nl (format_list_as_markdown two_bullets) =
     [bullet # 32 # str ''a'', bullet # 32 # str ''b'', [], []] \<and>
   count_list (format_list_as_markdown two_bullets) newline = 3"
proof -
  have member: "str ''- a'' \<in> set (split_nl two_bullets)"
    by (simp add: split_two_bullets)
  have bodies: "map (\<lambda>p. butlast (format_line p)) (split_nl two_bullets) =
      [bullet # 32 # str ''a'', bullet # 32 # str ''b'', []]"
    by (simp add: split_two_bullets format_line_samples)
  have len: "length (split_nl two_bullets) = 3"
    by (simp add: split_two_bullets)
  from format_newline_after_each_line [of two_bullets "str ''- a''"]
  have pieces: "\<forall>p \<in> set (split_nl two_bullets).
        newline \<notin> set p \<and> newline \<notin> set (butlast (format_line p))"
    and lines: "split_nl (format_list_as_markdown two_bullets) =
        map (\<lambda>p. butlast (format_line p)) (split_nl two_bullets) @ ([] # [])"
    and count: "count_list (format_list_as_markdown two_bullets) newline =
        length (split_nl two_bullets)"
    by blast+
  from pieces member have "newline \<notin> set (str ''- a'')"
    and "newline \<notin> set (butlast (format_line (str ''- a'')))" by blast+
  moreover have "split_nl (format_list_as_markdown two_bullets) =
     [bullet # 32 # str ''a'', bullet # 32 # str ''b'', [], []]"
    by (simp only: lines bodies) simp
  moreover have "count_list (format_list_as_markdown two_bullets) newline = 3"
    by (simp only: count len)
  ultimately show ?thesis using split_two_bullets by blast
qed

section \<open>Steps of the collaborators\<close>

lemma external_ok:
  "\<not> fault w (clock w) \<Longrightarrow> external e w = (Inr (), w\<lparr>clock := Suc (clock w)\<rparr>)"
  by (simp add: external_def)

lemma external_fail:
  "fault w (clock w) \<Longrightarrow> external e w = (Inl e, w\<lparr>clock := Suc (clock w)\<rparr>)"
  by (simp add: external_def)

lemma reply_text_ok:
  "\<not> fault w (clock w) \<Longrightarrow>
   reply_text text w =
     (Inr (length (outbox w)), w\<lparr>clock := Suc (clock w), outbox := outbox w @ [text]\<rparr>)"
  by (simp add: reply_text_def external_ok)

lemma reply_text_fail:
  "fault w (clock w) \<Longrightarrow>
   reply_text text w = (Inl TransportError, w\<lparr>clock := Suc (clock w)\<rparr>)"
  by (simp add: reply_text_def external_fail)

lemma message_delete_ok:
  "\<not> fault w (clock w) \<Longrightarrow>
   message_delete m w = (Inr (), w\<lparr>clock := Suc (clock w), deleted := deleted w @ [m]\<rparr>)"
  by (simp add: message_delete_def external_ok)

lemma message_delete_fail:
  "fault w (clock w) \<Longrightarrow>
   message_delete m w = (Inl TransportError, w\<lparr>clock := Suc (clock w)\<rparr>)"
  by (simp add: message_delete_def external_fail)

lemma reply_text_frame:
  "table (snd (reply_text t w)) = table w \<and> llm_calls (snd (reply_text t w)) = llm_calls w"
  by (cases "fault w (clock w)") (simp_all add: reply_text_ok reply_text_fail)

lemma message_delete_table: "table (snd (message_delete t w)) = table w"
  by (cases "fault w (clock w)") (simp_all add: message_delete_ok message_delete_fail)

lemma get_context_connected:
  "\<not> fault w (clock w) \<Longrightarrow>
   get_context c w =
     (if fault w (clock w + 2) then Inl CloseError
      else Inr (if fault w (clock w + 1) then []
                else (case row_context (table w c) of Inl e \<Rightarrow> [] | Inr h \<Rightarrow> h)),
      w\<lparr>clock := clock w + 3\<rparr>)"
  by (simp add: get_context_def get_db_connection_def conn_fetchrow_def conn_close_def
      external_def split: sum.splits)

lemma get_context_refused:
  "fault w (clock w) \<Longrightarrow>
   get_context c w = (Inl ConnectionError, w\<lparr>clock := Suc (clock w)\<rparr>)"
  by (simp add: get_context_def get_db_connection_def external_def)

lemma get_context_frame:
  "table (snd (get_context c w)) = table w \<and> llm (snd (get_context c w)) = llm w \<and>
   outbox (snd (get_context c w)) = outbox w \<and>
   llm_calls (snd (get_context c w)) = llm_calls w"
  by (cases "fault w (clock w)") (simp_all add: get_context_connected get_context_refused)

lemma save_context_connected:
  "\<not> fault w (clock w) \<Longrightarrow>
   save_context c h w =
     (if fault w (clock w + 2) then Inl CloseError else Inr (),
      if fault w (clock w + 1) then w\<lparr>clock := clock w + 3\<rparr>
      else w\<lparr>clock := clock w + 3, table := (table w)(c \<mapsto> Dumped h)\<rparr>)"
  by (simp add: save_context_def get_db_connection_def conn_upsert_def conn_close_def
      external_def json_dumps_def)

lemma save_context_refused:
  "fault w (clock w) \<Longrightarrow>
   save_context c h w = (Inl ConnectionError, w\<lparr>clock := Suc (clock w)\<rparr>)"
  by (simp add: save_context_def get_db_connection_def external_def)

lemma send_loop_ok:
  "(\<forall>t<length cs. \<not> fault w (clock w + t)) \<Longrightarrow>
   send_loop cs w = (Inr (), w\<lparr>clock := clock w + length cs, outbox := outbox w @ cs\<rparr>)"
proof (induction cs arbitrary: w)
  case Nil
  then show ?case by simp
next
  case (Cons c cs)
  let ?w' = "w\<lparr>clock := Suc (clock w), outbox := outbox w @ [c]\<rparr>"
  from Cons.prems have "\<not> fault w (clock w)" by force
  then have first: "reply_text c w = (Inr (length (outbox w)), ?w')"
    by (rule reply_text_ok)
  have "\<forall>t<length cs. \<not> fault ?w' (clock ?w' + t)"
    using Cons.prems by force
  from Cons.IH [OF this] show ?case by (simp add: first)
qed

lemma send_loop_fail:
  "k < length cs \<Longrightarrow> (\<forall>t<k. \<not> fault w (clock w + t)) \<Longrightarrow> fault w (clock w + k) \<Longrightarrow>
   send_loop cs w =
     (Inl TransportError, w\<lparr>clock := Suc (clock w + k), outbox := outbox w @ take k cs\<rparr>)"
proof (induction cs arbitrary: w k)
  case Nil
  then show ?case by simp
next
  case (Cons c cs)
  show ?case
  proof (cases k)
    case 0
    with Cons.prems show ?thesis by (simp add: reply_text_fail)
  next
    case (Suc j)
    let ?w' = "w\<lparr>clock := Suc (clock w), outbox := outbox w @ [c]\<rparr>"
    from Cons.prems Suc have "\<not> fault w (clock w)" by force
    then have first: "reply_text c w = (Inr (length (outbox w)), ?w')"
      by (rule reply_text_ok)
    have shorter: "j < length cs" using Cons.prems Suc by simp
    have before: "\<forall>t<j. \<not> fault ?w' (clock ?w' + t)" using Cons.prems Suc by force
    have at: "fault ?w' (clock ?w' + j)" using Cons.prems Suc by simp
    from Cons.IH [OF shorter before at] show ?thesis by (simp add: first Suc)
  qed
qed

section \<open>Chunked delivery\<close>

lemma send_empty: "0 < L \<Longrightarrow> send_message_in_chunks [] (int L) w = (Inr (), w)"
  by (simp add: send_message_in_chunks_def chunks_def)

lemma send_all:
  "0 < L \<Longrightarrow> \<forall>t. \<not> fault w t \<Longrightarrow>
   send_message_in_chunks T (int L) w =
     (Inr (), w\<lparr>clock := clock w + length (chunks T L), outbox := outbox w @ chunks T L\<rparr>)"
  by (simp add: send_message_in_chunks_def send_loop_ok)

text \<open>
  C1.  For every text \<open>T\<close> and every limit \<open>L > 0\<close> the slices taken by
  \<open>send_message_in_chunks\<close> concatenate to \<open>T\<close>, each slice has at most \<open>L\<close>
  characters, and the empty text has no slice.  Sending the empty text makes no call:
  the world is returned as it was.  When no call fails, the messages delivered are
  exactly these slices, in order.
\<close>

theorem chunks_reassemble:
  "0 < L \<Longrightarrow>
   concat (chunks T L) = T \<and> (\<forall>c \<in> set (chunks T L). length c \<le> L) \<and>
   chunks [] L = [] \<and> send_message_in_chunks [] (int L) w = (Inr (), w) \<and>
   ((\<forall>t. \<not> fault w t) \<longrightarrow>
      send_message_in_chunks T (int L) w =
        (Inr (), w\<lparr>clock := clock w + length (chunks T L),
                    outbox := outbox w @ chunks T L\<rparr>))"
  using concat_slices [of L T 0] send_empty [of L w] send_all [of L w T]
  by (auto simp: chunks_def)

theorem chunks_reassemble_witness:
  "0 < (3::nat) \<and>
   chunks (str ''abcdefg'') 3 = [str ''abc'', str ''def'', str ''g''] \<and>
   concat (chunks (str ''abcdefg'') 3) = str ''abcdefg'' \<and>
   chunks [] 3 = [] \<and>
   send_message_in_chunks [] 3 calm_world = (Inr (), calm_world) \<and>
   outbox (snd (send_message_in_chunks (str ''abcdefg'') 3 calm_world)) =
     [str ''abc'', str ''def'', str ''g'']"
proof -
  have slices: "chunks (str ''abcdefg'') 3 = [str ''abc'', str ''def'', str ''g'']"
    by (simp add: chunks_def str_def)
  have calm: "\<forall>t. \<not> fault calm_world t" "outbox calm_world = []"
    by (simp_all add: calm_world_def)
  show ?thesis
    using chunks_reassemble [of 3 "str ''abcdefg''" calm_world] calm
    by (simp add: slices)
qed

section \<open>Loading a history\<close>

text \<open>
  C3, as worded in the specification, fails for the connection itself: when it cannot be
  opened, \<open>get_context\<close> does not return the empty history, it raises the connection
  error.
\<close>

theorem get_context_connection_counterexample:
  "fst (get_db_connection storage_down) = Inl ConnectionError \<and>
   fst (get_context 7 storage_down) = Inl ConnectionError"
  by (simp add: storage_down_def calm_world_def get_context_refused get_db_connection_def
      external_fail)

text \<open>
  C3, amended.  For every chat: a failure to open the connection leaves \<open>get_context\<close>
  as an error.  Once the connection is open and its release does not fail,
  \<open>get_context\<close> returns a history, and it returns the empty one whenever the query
  fails, the row is missing, the column is falsy or \<open>json.loads\<close> rejects it.
\<close>

theorem get_context_swallows_after_connect:
  "(fault w (clock w) \<longrightarrow> fst (get_context c w) = Inl ConnectionError) \<and>
   (\<not> fault w (clock w) \<and> \<not> fault w (clock w + 2) \<longrightarrow>
      (\<exists>h. fst (get_context c w) = Inr h) \<and>
      (fault w (clock w + 1) \<or> table w c = None \<or> table w c = Some Blank \<or>
       table w c = Some Malformed \<longrightarrow> fst (get_context c w) = Inr []))"
  by (auto simp: get_context_refused get_context_connected row_context_def json_loads_def)

theorem get_context_swallows_after_connect_witness:
  "fault storage_down (clock storage_down) \<and>
   fst (get_context 7 storage_down) = Inl ConnectionError \<and>
   \<not> fault query_down (clock query_down) \<and> \<not> fault query_down (clock query_down + 2) \<and>
   fault query_down (clock query_down + 1) \<and> fst (get_context 7 query_down) = Inr []"
  using get_context_swallows_after_connect [of storage_down 7]
    get_context_swallows_after_connect [of query_down 7]
  by (simp add: storage_down_def query_down_def calm_world_def)

section \<open>One exchange\<close>

lemma project_turns: "map (\<lambda>msg. \<lparr>role = role msg, content = content msg\<rparr>) h = h"
  by (induction h) simp_all

lemma handle_message_loaded:
  "get_context c w = (Inr h, w1) \<Longrightarrow>
   handle_message c m w =
     (case exchange c (clean_markdown m)
             (h @ [\<lparr>role = str ''user'', content = clean_markdown m\<rparr>]) w1 of
        (Inl e, w2) \<Rightarrow>
          (case reply_text request_error_text w2 of
             (Inl e', w3) \<Rightarrow> (Inl e', w3)
           | (Inr _, w3) \<Rightarrow> (Inr (), w3))
      | (Inr u, w2) \<Rightarrow> (Inr u, w2))"
  by (simp add: handle_message_def Let_def)

lemma exchange_typed:
  "\<not> fault w (clock w) \<Longrightarrow>
   exchange c p ctx w =
     (let w2 = w\<lparr>clock := Suc (clock w), outbox := outbox w @ [typing_text],
                 llm_calls := llm_calls w @ [(p, ctx)]\<rparr>
      in (case llm w p ctx of
            CallRaises \<Rightarrow> (Inl LLMError, w2)
          | MissingText \<Rightarrow> (Inl KeyError, w2)
          | Output output_content \<Rightarrow>
              (case dispatch (clean_markdown (format_list_as_markdown output_content))
                      output_content w2 of
                 (Inl e, w3) \<Rightarrow> (Inl e, w3)
               | (Inr _, w3) \<Rightarrow>
                   (case save_context c
                           (ctx @
                              [\<lparr>role = str ''assistant'',
                                content =
                                  clean_markdown (format_list_as_markdown output_content)\<rparr>])
                           w3 of
                      (Inl e, w4) \<Rightarrow> (Inl e, w4)
                    | (Inr _, w4) \<Rightarrow> message_delete (length (outbox w)) w4))
          | _ \<Rightarrow>
              (case reply_text no_response_text w2 of
                 (Inl e, w3) \<Rightarrow> (Inl e, w3)
               | (Inr _, w3) \<Rightarrow> message_delete (length (outbox w)) w3)))"
  by (cases "llm w p ctx")
    (simp_all add: exchange_def reply_text_ok application_call_def project_turns Let_def)

lemma exchange_untyped:
  "fault w (clock w) \<Longrightarrow>
   exchange c p ctx w = (Inl TransportError, w\<lparr>clock := Suc (clock w)\<rparr>)"
  by (simp add: exchange_def reply_text_fail)

lemma exchange_malformed_table:
  assumes "llm w p ctx = Absent \<or> llm w p ctx = MissingOutput"
  shows "table (snd (exchange c p ctx w)) = table w"
proof (cases "fault w (clock w)")
  case True
  then show ?thesis by (simp add: exchange_untyped)
next
  case False
  let ?w2 = "w\<lparr>clock := Suc (clock w), outbox := outbox w @ [typing_text],
                llm_calls := llm_calls w @ [(p, ctx)]\<rparr>"
  have "exchange c p ctx w =
        (case reply_text no_response_text ?w2 of
           (Inl e, w3) \<Rightarrow> (Inl e, w3)
         | (Inr _, w3) \<Rightarrow> message_delete (length (outbox w)) w3)"
    using False assms by (auto simp add: exchange_typed)
  then show ?thesis
    using reply_text_frame [of no_response_text ?w2]
    by (auto split: prod.splits sum.splits simp: message_delete_table dest: sym)
qed

lemma handler_table:
  assumes "table w2 = T"
  shows "table (snd (case (r, w2) of
        (Inl e, w2) \<Rightarrow>
          (case reply_text request_error_text w2 of
             (Inl e', w3) \<Rightarrow> (Inl e', w3)
           | (Inr _, w3) \<Rightarrow> (Inr (), w3))
      | (Inr u, w2) \<Rightarrow> (Inr u, w2))) = T"
  using assms reply_text_frame [of request_error_text w2]
  by (auto split: sum.splits prod.splits)

text \<open>
  C4.  When the application's answer to the prompt is falsy or has no \<open>output\<close>, the
  table after \<open>handle_message\<close> is the table before it, whatever else fails during the
  run: nothing is persisted.  When moreover none of the six calls of that path fails,
  the handler returns normally, the user has received the typing message and then the
  no-response message, and the typing message has been deleted.
\<close>

theorem malformed_reply_keeps_history:
  assumes "\<forall>ms. llm w (clean_markdown m) ms = Absent \<or>
                llm w (clean_markdown m) ms = MissingOutput"
  shows "table (snd (handle_message c m w)) = table w \<and>
         ((\<forall>t. t < clock w + 6 \<longrightarrow> \<not> fault w t) \<longrightarrow>
            fst (handle_message c m w) = Inr () \<and>
            outbox (snd (handle_message c m w)) =
              outbox w @ [typing_text, no_response_text] \<and>
            deleted (snd (handle_message c m w)) = deleted w @ [length (outbox w)])"
proof
  show "table (snd (handle_message c m w)) = table w"
  proof (cases "get_context c w")
    case (Pair r w1)
    have t1: "table w1 = table w" and l1: "llm w1 = llm w"
      using get_context_frame [of c w] Pair by simp_all
    show ?thesis
    proof (cases r)
      case (Inl e)
      with Pair t1 show ?thesis by (simp add: handle_message_def)
    next
      case (Inr h)
      let ?ctx = "h @ [\<lparr>role = str ''user'', content = clean_markdown m\<rparr>]"
      have "llm w1 (clean_markdown m) ?ctx = Absent \<or>
            llm w1 (clean_markdown m) ?ctx = MissingOutput"
        using assms l1 by simp
      from exchange_malformed_table [OF this, of c]
      have "table (snd (exchange c (clean_markdown m) ?ctx w1)) = table w"
        using t1 by simp
      then show ?thesis
        using handler_table [of "snd (exchange c (clean_markdown m) ?ctx w1)" "table w"
            "fst (exchange c (clean_markdown m) ?ctx w1)"]
        using Pair Inr by (simp add: handle_message_loaded)
    qed
  qed
next
  show "(\<forall>t. t < clock w + 6 \<longrightarrow> \<not> fault w t) \<longrightarrow>
            fst (handle_message c m w) = Inr () \<and>
            outbox (snd (handle_message c m w)) =
              outbox w @ [typing_text, no_response_text] \<and>
            deleted (snd (handle_message c m w)) = deleted w @ [length (outbox w)]"
  proof
    assume quiet: "\<forall>t. t < clock w + 6 \<longrightarrow> \<not> fault w t"
    let ?h = "case row_context (table w c) of Inl e \<Rightarrow> [] | Inr h \<Rightarrow> h"
    let ?ctx = "?h @ [\<lparr>role = str ''user'', content = clean_markdown m\<rparr>]"
    let ?w1 = "w\<lparr>clock := clock w + 3\<rparr>"
    let ?w2 = "?w1\<lparr>clock := Suc (clock ?w1), outbox := outbox ?w1 @ [typing_text],
                 llm_calls := llm_calls ?w1 @ [(clean_markdown m, ?ctx)]\<rparr>"
    let ?w3 = "?w2\<lparr>clock := Suc (clock ?w2), outbox := outbox ?w2 @ [no_response_text]\<rparr>"
    let ?w4 = "?w3\<lparr>clock := Suc (clock ?w3), deleted := deleted ?w3 @ [length (outbox w)]\<rparr>"
    have load: "get_context c w = (Inr ?h, ?w1)"
      using quiet by (simp add: get_context_connected)
    have "\<not> fault ?w2 (clock ?w2)" using quiet by simp
    then have said: "reply_text no_response_text ?w2 = (Inr (length (outbox ?w2)), ?w3)"
      by (rule reply_text_ok)
    have "\<not> fault ?w3 (clock ?w3)" using quiet by simp
    then have del: "message_delete (length (outbox w)) ?w3 = (Inr (), ?w4)"
      by (rule message_delete_ok)
    have "\<not> fault ?w1 (clock ?w1)" using quiet by simp
    moreover have "llm ?w1 (clean_markdown m) ?ctx = Absent \<or>
                   llm ?w1 (clean_markdown m) ?ctx = MissingOutput"
      using assms by simp
    ultimately have "exchange c (clean_markdown m) ?ctx ?w1 = (Inr (), ?w4)"
      using said del by (auto simp add: exchange_typed)
    then have "handle_message c m w = (Inr (), ?w4)"
      by (simp only: handle_message_loaded [OF load] prod.case sum.case)
    then show "fst (handle_message c m w) = Inr () \<and>
            outbox (snd (handle_message c m w)) =
              outbox w @ [typing_text, no_response_text] \<and>
            deleted (snd (handle_message c m w)) = deleted w @ [length (outbox w)]"
      by simp
  qed
qed

theorem malformed_reply_keeps_history_witness:
  "table (snd (handle_message 7 (str ''Hello'') silent_world)) = table silent_world \<and>
   fst (handle_message 7 (str ''Hello'') silent_world) = Inr () \<and>
   outbox (snd (handle_message 7 (str ''Hello'') silent_world)) =
     [typing_text, no_response_text]"
  using malformed_reply_keeps_history [of silent_world "str ''Hello''" 7]
  by (simp add: silent_world_def calm_world_def)

lemma newline_in_format: "newline \<in> set (format_list_as_markdown t)"
proof -
  obtain l ls where "split_nl t = l # ls"
    using split_nl_nonempty [of t] by (cases "split_nl t") auto
  moreover have "newline \<in> set (format_line l)"
    by (simp add: format_line_def)
  ultimately show ?thesis
    by (simp add: format_list_as_markdown_def format_loop_concat)
qed

lemma reply_chunks_nonempty: "chunks (clean_markdown (format_list_as_markdown t)) 4096 \<noteq> []"
proof -
  have "newline \<in> set (clean_markdown (format_list_as_markdown t))"
    using newline_in_format [of t]
    by (simp add: clean_markdown_filter newline_def backslash_def)
  then have "clean_markdown (format_list_as_markdown t) \<noteq> []" by auto
  then show ?thesis by (simp add: chunks_def)
qed

text \<open>
  The path of a well-formed reply up to the deletion of the typing message, when the
  typing message, every chunk of the formatted text and the three calls of
  \<open>save_context\<close> succeed.
\<close>

lemma exchange_delivered:
  assumes reply: "llm w p ctx = Output reply"
    and clean: "clean = clean_markdown (format_list_as_markdown reply)"
    and quiet: "\<forall>t. t < clock w + length (chunks clean 4096) + 4 \<longrightarrow> \<not> fault w t"
  shows "exchange c p ctx w =
           message_delete (length (outbox w))
             (w\<lparr>clock := clock w + length (chunks clean 4096) + 4,
                outbox := outbox w @ [typing_text] @ chunks clean 4096,
                llm_calls := llm_calls w @ [(p, ctx)],
                table :=
                  (table w)(c \<mapsto>
                    Dumped (ctx @ [\<lparr>role = str ''assistant'', content = clean\<rparr>]))\<rparr>)"
proof -
  let ?cs = "chunks clean 4096"
  let ?h = "ctx @ [\<lparr>role = str ''assistant'', content = clean\<rparr>]"
  let ?w2 = "w\<lparr>clock := Suc (clock w), outbox := outbox w @ [typing_text],
                llm_calls := llm_calls w @ [(p, ctx)]\<rparr>"
  let ?w3 = "?w2\<lparr>clock := clock ?w2 + length ?cs, outbox := outbox ?w2 @ ?cs\<rparr>"
  let ?w4 = "?w3\<lparr>clock := clock ?w3 + 3, table := (table ?w3)(c \<mapsto> Dumped ?h)\<rparr>"
  have typed: "\<not> fault w (clock w)" using quiet by simp
  have "\<forall>t<length ?cs. \<not> fault ?w2 (clock ?w2 + t)" using quiet by simp
  then have sent: "send_loop ?cs ?w2 = (Inr (), ?w3)" by (rule send_loop_ok)
  have disp: "dispatch clean reply ?w2 = (Inr (), ?w3)"
    by (simp add: dispatch_def send_message_in_chunks_def sent)
  have "\<not> fault ?w3 (clock ?w3)" "\<not> fault ?w3 (clock ?w3 + 1)" "\<not> fault ?w3 (clock ?w3 + 2)"
    using quiet by simp_all
  then have saved: "save_context c ?h ?w3 = (Inr (), ?w4)"
    by (simp add: save_context_connected)
  have "exchange c p ctx w = message_delete (length (outbox w)) ?w4"
    using typed reply disp saved by (simp add: exchange_typed clean [symmetric])
  also have "?w4 = w\<lparr>clock := clock w + length (chunks clean 4096) + 4,
                outbox := outbox w @ [typing_text] @ chunks clean 4096,
                llm_calls := llm_calls w @ [(p, ctx)],
                table := (table w)(c \<mapsto> Dumped ?h)\<rparr>"
    by (cases w) simp
  finally show ?thesis .
qed

text \<open>
  C2.  Let \<open>H\<close> be the history stored in the row of the chat (the empty one when there
  is no row), \<open>M\<close> the inbound text, and let the application answer \<open>reply\<close> to the
  request.  When no call of the run fails, the one request made to the application
  carries the stripped text as prompt and \<open>H\<close> followed by the stripped user turn as
  messages; the row is then \<open>H\<close>, the user turn and the assistant turn with the
  formatted and stripped reply; and the user receives the typing message followed by
  the chunks of that reply, at least one, whose concatenation is the reply.
\<close>

theorem successful_exchange:
  assumes stored: "table w c = Some (Dumped H) \<or> table w c = None \<and> H = []"
    and reply: "llm w (clean_markdown M)
                  (H @ [\<lparr>role = str ''user'', content = clean_markdown M\<rparr>]) = Output reply"
    and formatted: "formatted = clean_markdown (format_list_as_markdown reply)"
    and quiet: "\<forall>t. t < clock w + length (chunks formatted 4096) + 8 \<longrightarrow> \<not> fault w t"
  shows "fst (handle_message c M w) = Inr () \<and>
     llm_calls (snd (handle_message c M w)) =
       llm_calls w @
         [(clean_markdown M, H @ [\<lparr>role = str ''user'', content = clean_markdown M\<rparr>])] \<and>
     table (snd (handle_message c M w)) =
       (table w)(c \<mapsto>
          Dumped (H @ [\<lparr>role = str ''user'', content = clean_markdown M\<rparr>,
                       \<lparr>role = str ''assistant'', content = formatted\<rparr>])) \<and>
     outbox (snd (handle_message c M w)) = outbox w @ [typing_text] @ chunks formatted 4096 \<and>
     chunks formatted 4096 \<noteq> [] \<and> concat (chunks formatted 4096) = formatted"
proof -
  let ?n = "length (chunks formatted 4096)"
  let ?ctx = "H @ [\<lparr>role = str ''user'', content = clean_markdown M\<rparr>]"
  let ?w1 = "w\<lparr>clock := clock w + 3\<rparr>"
  let ?w4 = "?w1\<lparr>clock := clock ?w1 + ?n + 4,
                outbox := outbox ?w1 @ [typing_text] @ chunks formatted 4096,
                llm_calls := llm_calls ?w1 @ [(clean_markdown M, ?ctx)],
                table :=
                  (table ?w1)(c \<mapsto>
                    Dumped (?ctx @ [\<lparr>role = str ''assistant'', content = formatted\<rparr>]))\<rparr>"
  let ?w5 = "?w4\<lparr>clock := Suc (clock ?w4), deleted := deleted ?w4 @ [length (outbox ?w1)]\<rparr>"
  have decoded: "row_context (table w c) = Inr H"
    using stored by (auto simp: row_context_def json_loads_def)
  have load: "get_context c w = (Inr H, ?w1)"
    using quiet decoded by (simp add: get_context_connected)
  have reply1: "llm ?w1 (clean_markdown M) ?ctx = Output reply"
    using reply by simp
  have quiet1: "\<forall>t. t < clock ?w1 + length (chunks formatted 4096) + 4 \<longrightarrow> \<not> fault ?w1 t"
    using quiet by simp
  have ex: "exchange c (clean_markdown M) ?ctx ?w1 = message_delete (length (outbox ?w1)) ?w4"
    by (rule exchange_delivered [OF reply1 formatted quiet1])
  have "\<not> fault ?w4 (clock ?w4)" using quiet by simp
  then have del: "message_delete (length (outbox ?w1)) ?w4 = (Inr (), ?w5)"
    by (rule message_delete_ok)
  have "handle_message c M w = (Inr (), ?w5)"
    by (simp only: handle_message_loaded [OF load] ex del prod.case sum.case)
  moreover have "concat (chunks formatted 4096) = formatted"
    using concat_slices [of 4096 formatted 0] by (simp add: chunks_def)
  moreover have "chunks formatted 4096 \<noteq> []"
    unfolding formatted by (rule reply_chunks_nonempty)
  ultimately show ?thesis by simp
qed

lemma clean_hello: "clean_markdown (str ''Hello'') = str ''Hello''"
  by (simp add: clean_markdown_filter str_def backslash_def)

lemma clean_star: "clean_markdown (str ''a'' @ [backslash] @ str ''*b'') = str ''a*b''"
  by (simp add: clean_markdown_filter str_def backslash_def)

lemma clean_format_hi_there:
  "clean_markdown (format_list_as_markdown (str ''Hi there'')) = str ''Hi there'' @ [newline]"
  by (simp add: clean_markdown_filter format_list_as_markdown_def format_line_def str_def
      strip_def startswith_def isspace_def newline_def bullet_def backslash_def)

lemma chunks_hi_there:
  "chunks (str ''Hi there'' @ [newline]) 4096 = [str ''Hi there'' @ [newline]]"
  by (simp add: chunks_def str_def)

text \<open>
  Two runs: \<open>Hello\<close> on an empty table, and then the text \<open>a\<close>, backslash, \<open>*b\<close>
  for a chat whose row already holds the first exchange.
\<close>

theorem successful_exchange_witness:
  "fst (handle_message 7 (str ''Hello'') calm_world) = Inr () \<and>
   llm_calls (snd (handle_message 7 (str ''Hello'') calm_world)) =
     [(str ''Hello'', [\<lparr>role = str ''user'', content = str ''Hello''\<rparr>])] \<and>
   table (snd (handle_message 7 (str ''Hello'') calm_world)) 7 =
     Some (Dumped [\<lparr>role = str ''user'', content = str ''Hello''\<rparr>,
                   \<lparr>role = str ''assistant'', content = str ''Hi there'' @ [newline]\<rparr>]) \<and>
   outbox (snd (handle_message 7 (str ''Hello'') calm_world)) =
     [typing_text, str ''Hi there'' @ [newline]] \<and>
   table returning_world 7 =
     Some (Dumped [\<lparr>role = str ''user'', content = str ''Hello''\<rparr>,
                   \<lparr>role = str ''assistant'', content = str ''Hi there'' @ [newline]\<rparr>]) \<and>
   llm_calls (snd (handle_message 7 (str ''a'' @ [backslash] @ str ''*b'') returning_world)) =
     [(str ''a*b'',
       [\<lparr>role = str ''user'', content = str ''Hello''\<rparr>,
        \<lparr>role = str ''assistant'', content = str ''Hi there'' @ [newline]\<rparr>,
        \<lparr>role = str ''user'', content = str ''a*b''\<rparr>])] \<and>
   table (snd (handle_message 7 (str ''a'' @ [backslash] @ str ''*b'') returning_world)) 7 =
     Some (Dumped [\<lparr>role = str ''user'', content = str ''Hello''\<rparr>,
                   \<lparr>role = str ''assistant'', content = str ''Hi there'' @ [newline]\<rparr>,
                   \<lparr>role = str ''user'', content = str ''a*b''\<rparr>,
                   \<lparr>role = str ''assistant'', content = str ''Hi there'' @ [newline]\<rparr>]) \<and>
   outbox (snd (handle_message 7 (str ''a'' @ [backslash] @ str ''*b'') returning_world)) =
     [typing_text, str ''Hi there'' @ [newline]]"
proof -
  let ?old = "[\<lparr>role = str ''user'', content = str ''Hello''\<rparr>,
               \<lparr>role = str ''assistant'', content = str ''Hi there'' @ [newline]\<rparr>]"
  let ?M = "str ''a'' @ [backslash] @ str ''*b''"
  let ?f = "str ''Hi there'' @ [newline]"
  have f: "?f = clean_markdown (format_list_as_markdown (str ''Hi there''))"
    by (simp only: clean_format_hi_there)
  have e1: "table calm_world 7 = Some (Dumped []) \<or>
      table calm_world 7 = None \<and> [] = ([] :: turn list)"
    by (simp add: calm_world_def)
  have r1: "llm calm_world (clean_markdown (str ''Hello''))
      ([] @ [\<lparr>role = str ''user'', content = clean_markdown (str ''Hello'')\<rparr>]) =
      Output (str ''Hi there'')"
    by (simp add: calm_world_def)
  have q1: "\<forall>t. t < clock calm_world + length (chunks ?f 4096) + 8 \<longrightarrow>
      \<not> fault calm_world t"
    by (simp add: calm_world_def)
  have e2: "table returning_world 7 = Some (Dumped ?old) \<or>
      table returning_world 7 = None \<and> ?old = []"
    by (simp add: returning_world_def)
  have r2: "llm returning_world (clean_markdown ?M)
      (?old @ [\<lparr>role = str ''user'', content = clean_markdown ?M\<rparr>]) =
      Output (str ''Hi there'')"
    by (simp add: returning_world_def calm_world_def)
  have q2: "\<forall>t. t < clock returning_world + length (chunks ?f 4096) + 8 \<longrightarrow>
      \<not> fault returning_world t"
    by (simp add: returning_world_def calm_world_def)
  have w: "llm_calls calm_world = []" "outbox calm_world = []" "table calm_world = Map.empty"
    "llm_calls returning_world = []" "outbox returning_world = []"
    "table returning_world 7 = Some (Dumped ?old)"
    by (simp_all add: returning_world_def calm_world_def)
  show ?thesis
    using successful_exchange [OF e1 r1 f q1] successful_exchange [OF e2 r2 f q2] clean_star
    by (simp add: w clean_hello chunks_hi_there)
qed

lemma chunks_hi_there_raw: "chunks (str ''Hi there'') 4096 = [str ''Hi there'']"
  by (simp add: chunks_def str_def)

text \<open>
  C8.  Let the application give a well-formed reply and let the dispatch of the formatted
  text fail at its chunk number \<open>k\<close>, every other call of the run succeeding.  Then the
  handler sends the raw reply text in chunks of at most 4096 characters, which
  concatenate to the raw text, after the \<open>k\<close> chunks of the formatted text that had gone
  out; it returns normally, no error message is sent, and the history is persisted with
  the formatted reply.
\<close>

theorem dispatch_falls_back_to_raw:
  assumes stored: "row_context (table w c) = Inr H"
    and reply: "llm w (clean_markdown M)
                  (H @ [\<lparr>role = str ''user'', content = clean_markdown M\<rparr>]) = Output reply"
    and formatted: "formatted = clean_markdown (format_list_as_markdown reply)"
    and failing: "k < length (chunks formatted 4096)"
    and schedule: "\<forall>t. t < clock w + k + length (chunks reply 4096) + 9 \<longrightarrow>
                     (fault w t \<longleftrightarrow> t = clock w + 4 + k)"
  shows "fst (handle_message c M w) = Inr () \<and>
     outbox (snd (handle_message c M w)) =
       outbox w @ [typing_text] @ take k (chunks formatted 4096) @ chunks reply 4096 \<and>
     (\<forall>x \<in> set (chunks reply 4096). length x \<le> 4096) \<and>
     concat (chunks reply 4096) = reply \<and>
     table (snd (handle_message c M w)) =
       (table w)(c \<mapsto>
          Dumped (H @ [\<lparr>role = str ''user'', content = clean_markdown M\<rparr>,
                       \<lparr>role = str ''assistant'', content = formatted\<rparr>]))"
proof -
  let ?cs = "chunks formatted 4096"
  let ?rs = "chunks reply 4096"
  let ?ctx = "H @ [\<lparr>role = str ''user'', content = clean_markdown M\<rparr>]"
  let ?h = "?ctx @ [\<lparr>role = str ''assistant'', content = formatted\<rparr>]"
  let ?w1 = "w\<lparr>clock := clock w + 3\<rparr>"
  let ?w2 = "?w1\<lparr>clock := Suc (clock ?w1), outbox := outbox ?w1 @ [typing_text],
                 llm_calls := llm_calls ?w1 @ [(clean_markdown M, ?ctx)]\<rparr>"
  let ?w3 = "?w2\<lparr>clock := Suc (clock ?w2 + k), outbox := outbox ?w2 @ take k ?cs\<rparr>"
  let ?w4 = "?w3\<lparr>clock := clock ?w3 + length ?rs, outbox := outbox ?w3 @ ?rs\<rparr>"
  let ?w5 = "?w4\<lparr>clock := clock ?w4 + 3, table := (table ?w4)(c \<mapsto> Dumped ?h)\<rparr>"
  let ?w6 = "?w5\<lparr>clock := Suc (clock ?w5), deleted := deleted ?w5 @ [length (outbox w)]\<rparr>"
  have load: "get_context c w = (Inr H, ?w1)"
    using schedule stored by (simp add: get_context_connected)
  have typed: "\<not> fault ?w1 (clock ?w1)" using schedule by simp
  have before: "\<forall>t<k. \<not> fault ?w2 (clock ?w2 + t)" using schedule by simp
  have at: "fault ?w2 (clock ?w2 + k)" using schedule by simp
  have failed: "send_loop ?cs ?w2 = (Inl TransportError, ?w3)"
    by (rule send_loop_fail [OF failing before at])
  have "\<forall>t<length ?rs. \<not> fault ?w3 (clock ?w3 + t)" using schedule by simp
  then have sent: "send_loop ?rs ?w3 = (Inr (), ?w4)" by (rule send_loop_ok)
  have disp: "dispatch formatted reply ?w2 = (Inr (), ?w4)"
    using failed sent by (simp add: dispatch_def send_message_in_chunks_def)
  have "\<not> fault ?w4 (clock ?w4)" "\<not> fault ?w4 (clock ?w4 + 1)" "\<not> fault ?w4 (clock ?w4 + 2)"
    using schedule by simp_all
  then have saved: "save_context c ?h ?w4 = (Inr (), ?w5)"
    by (simp add: save_context_connected)
  have "\<not> fault ?w5 (clock ?w5)" using schedule by simp
  then have del: "message_delete (length (outbox w)) ?w5 = (Inr (), ?w6)"
    by (rule message_delete_ok)
  have "exchange c (clean_markdown M) ?ctx ?w1 = (Inr (), ?w6)"
    using typed reply disp saved del by (simp add: exchange_typed formatted [symmetric])
  then have "handle_message c M w = (Inr (), ?w6)"
    by (simp only: handle_message_loaded [OF load] prod.case sum.case)
  moreover have "concat ?rs = reply"
    using concat_slices [of 4096 reply 0] by (simp add: chunks_def)
  moreover have "\<forall>x \<in> set ?rs. length x \<le> 4096"
    by (auto simp: chunks_def)
  ultimately show ?thesis by simp
qed

theorem dispatch_falls_back_to_raw_witness:
  "fst (handle_message 7 (str ''Hello'') dispatch_down) = Inr () \<and>
   outbox (snd (handle_message 7 (str ''Hello'') dispatch_down)) =
     [typing_text, str ''Hi there''] \<and>
   table (snd (handle_message 7 (str ''Hello'') dispatch_down)) 7 =
     Some (Dumped [\<lparr>role = str ''user'', content = str ''Hello''\<rparr>,
                   \<lparr>role = str ''assistant'', content = str ''Hi there'' @ [newline]\<rparr>])"
  using dispatch_falls_back_to_raw [of dispatch_down 7 "[]" "str ''Hello''" "str ''Hi there''"
      "str ''Hi there'' @ [newline]" 0]
  by (simp add: clean_hello clean_format_hi_there chunks_hi_there chunks_hi_there_raw
      row_context_def dispatch_down_def calm_world_def)

lemma message_delete_frame:
  "message_delete m w = (r, w') \<Longrightarrow>
   table w' = table w \<and> outbox w' = outbox w \<and> llm_calls w' = llm_calls w \<and>
   clock w' = Suc (clock w) \<and> fault w' = fault w \<and> (isl r \<longleftrightarrow> fault w (clock w))"
  by (cases "fault w (clock w)") (auto simp: message_delete_ok message_delete_fail)

text \<open>What the \<open>except\<close> of \<open>handle_message\<close> leaves behind.\<close>

lemma handler_observed:
  "table (snd (case (r, w2) of
        (Inl e, w2) \<Rightarrow>
          (case reply_text request_error_text w2 of
             (Inl e', w3) \<Rightarrow> (Inl e', w3)
           | (Inr _, w3) \<Rightarrow> (Inr (), w3))
      | (Inr u, w2) \<Rightarrow> (Inr u, w2))) = table w2 \<and>
   llm_calls (snd (case (r, w2) of
        (Inl e, w2) \<Rightarrow>
          (case reply_text request_error_text w2 of
             (Inl e', w3) \<Rightarrow> (Inl e', w3)
           | (Inr _, w3) \<Rightarrow> (Inr (), w3))
      | (Inr u, w2) \<Rightarrow> (Inr u, w2))) = llm_calls w2 \<and>
   outbox (snd (case (r, w2) of
        (Inl e, w2) \<Rightarrow>
          (case reply_text request_error_text w2 of
             (Inl e', w3) \<Rightarrow> (Inl e', w3)
           | (Inr _, w3) \<Rightarrow> (Inr (), w3))
      | (Inr u, w2) \<Rightarrow> (Inr u, w2))) =
     outbox w2 @ (if isl r \<and> \<not> fault w2 (clock w2) then [request_error_text] else [])"
  by (cases r; cases "fault w2 (clock w2)") (simp_all add: reply_text_ok reply_text_fail)

text \<open>
  C9, as worded in the specification, fails for the sending of the typing message: when
  that call fails, the application is not called, the reply is not sent and no row is
  written; the user only receives the error message.
\<close>

theorem typing_failure_counterexample:
  "llm_calls (snd (handle_message 7 (str ''Hello'') typing_down)) = [] \<and>
   table (snd (handle_message 7 (str ''Hello'') typing_down)) 7 = None \<and>
   outbox (snd (handle_message 7 (str ''Hello'') typing_down)) = [request_error_text]"
  by (simp add: handle_message_def get_context_connected exchange_untyped reply_text_ok
      typing_down_def calm_world_def Let_def)

text \<open>
  C9, amended.  For an exchange with a well-formed reply whose \<open>n\<close> chunks are all
  sent: the deletion of the typing message comes after the dispatch and the save, so
  whether it fails or not the history is persisted and the user has the typing message
  and the chunks of the formatted reply; a failed deletion only adds the error message
  (when that can be sent).  The sending of the typing message comes first and inside the
  \<open>try\<close>: when it fails, the application is not called, the table is unchanged and
  the user receives at most the error message.
\<close>

theorem typing_indicator_failures:
  assumes stored: "row_context (table w c) = Inr H"
    and reply: "llm w (clean_markdown M)
                  (H @ [\<lparr>role = str ''user'', content = clean_markdown M\<rparr>]) = Output reply"
    and formatted: "formatted = clean_markdown (format_list_as_markdown reply)"
    and n: "n = length (chunks formatted 4096)"
  shows
    "((\<forall>t. t < clock w + n + 7 \<longrightarrow> \<not> fault w t) \<longrightarrow>
        table (snd (handle_message c M w)) =
          (table w)(c \<mapsto>
             Dumped (H @ [\<lparr>role = str ''user'', content = clean_markdown M\<rparr>,
                          \<lparr>role = str ''assistant'', content = formatted\<rparr>])) \<and>
        outbox (snd (handle_message c M w)) =
          outbox w @ [typing_text] @ chunks formatted 4096 @
            (if fault w (clock w + n + 7) \<and> \<not> fault w (clock w + n + 8)
             then [request_error_text] else [])) \<and>
     ((\<forall>t. t < clock w + 3 \<longrightarrow> \<not> fault w t) \<and> fault w (clock w + 3) \<longrightarrow>
        llm_calls (snd (handle_message c M w)) = llm_calls w \<and>
        table (snd (handle_message c M w)) = table w \<and>
        outbox (snd (handle_message c M w)) =
          outbox w @ (if fault w (clock w + 4) then [] else [request_error_text]))"
proof (intro conjI impI)
  let ?ctx = "H @ [\<lparr>role = str ''user'', content = clean_markdown M\<rparr>]"
  let ?w1 = "w\<lparr>clock := clock w + 3\<rparr>"
  let ?w4 = "?w1\<lparr>clock := clock ?w1 + length (chunks formatted 4096) + 4,
                outbox := outbox ?w1 @ [typing_text] @ chunks formatted 4096,
                llm_calls := llm_calls ?w1 @ [(clean_markdown M, ?ctx)],
                table :=
                  (table ?w1)(c \<mapsto>
                    Dumped (?ctx @ [\<lparr>role = str ''assistant'', content = formatted\<rparr>]))\<rparr>"
  assume quiet: "\<forall>t. t < clock w + n + 7 \<longrightarrow> \<not> fault w t"
  have load: "get_context c w = (Inr H, ?w1)"
    using quiet stored by (simp add: get_context_connected)
  have reply1: "llm ?w1 (clean_markdown M) ?ctx = Output reply"
    using reply by simp
  have quiet1: "\<forall>t. t < clock ?w1 + length (chunks formatted 4096) + 4 \<longrightarrow> \<not> fault ?w1 t"
    using quiet n by simp
  have ex: "exchange c (clean_markdown M) ?ctx ?w1 = message_delete (length (outbox ?w1)) ?w4"
    by (rule exchange_delivered [OF reply1 formatted quiet1])
  obtain r w5 where del: "message_delete (length (outbox ?w1)) ?w4 = (r, w5)"
    by fastforce
  have run: "handle_message c M w =
      (case (r, w5) of
        (Inl e, w2) \<Rightarrow>
          (case reply_text request_error_text w2 of
             (Inl e', w3) \<Rightarrow> (Inl e', w3)
           | (Inr _, w3) \<Rightarrow> (Inr (), w3))
      | (Inr u, w2) \<Rightarrow> (Inr u, w2))"
    by (simp only: handle_message_loaded [OF load] ex del)
  have at: "clock ?w4 = clock w + n + 7" using n by simp
  from message_delete_frame [OF del]
  have w5: "table w5 = table ?w4" "outbox w5 = outbox ?w4" "clock w5 = clock w + n + 8"
    "fault w5 = fault w" "isl r \<longleftrightarrow> fault w (clock w + n + 7)"
    unfolding at by simp_all
  show "table (snd (handle_message c M w)) =
          (table w)(c \<mapsto>
             Dumped (H @ [\<lparr>role = str ''user'', content = clean_markdown M\<rparr>,
                          \<lparr>role = str ''assistant'', content = formatted\<rparr>]))"
    using handler_observed [of r w5] w5 unfolding run by simp
  show "outbox (snd (handle_message c M w)) =
          outbox w @ [typing_text] @ chunks formatted 4096 @
            (if fault w (clock w + n + 7) \<and> \<not> fault w (clock w + n + 8)
             then [request_error_text] else [])"
    using handler_observed [of r w5] w5 unfolding run by simp
next
  let ?ctx = "H @ [\<lparr>role = str ''user'', content = clean_markdown M\<rparr>]"
  let ?w1 = "w\<lparr>clock := clock w + 3\<rparr>"
  let ?w2 = "?w1\<lparr>clock := Suc (clock ?w1)\<rparr>"
  assume a: "(\<forall>t. t < clock w + 3 \<longrightarrow> \<not> fault w t) \<and> fault w (clock w + 3)"
  have load: "get_context c w = (Inr H, ?w1)"
    using a stored by (simp add: get_context_connected)
  have "fault ?w1 (clock ?w1)" using a by simp
  then have ex: "exchange c (clean_markdown M) ?ctx ?w1 = (Inl TransportError, ?w2)"
    by (rule exchange_untyped)
  have run: "handle_message c M w =
      (case (Inl TransportError :: error + unit, ?w2) of
        (Inl e, w2) \<Rightarrow>
          (case reply_text request_error_text w2 of
             (Inl e', w3) \<Rightarrow> (Inl e', w3)
           | (Inr _, w3) \<Rightarrow> (Inr (), w3))
      | (Inr u, w2) \<Rightarrow> (Inr u, w2))"
    by (simp only: handle_message_loaded [OF load] ex)
  have "clock ?w2 = clock w + 4" and "fault ?w2 = fault w" by simp_all
  then have w2: "fault ?w2 (clock ?w2) = fault w (clock w + 4)" by (simp only:)
  show "llm_calls (snd (handle_message c M w)) = llm_calls w"
    using handler_observed [of "Inl TransportError" ?w2] unfolding run by simp
  show "table (snd (handle_message c M w)) = table w"
    using handler_observed [of "Inl TransportError" ?w2] unfolding run by simp
  show "outbox (snd (handle_message c M w)) =
          outbox w @ (if fault w (clock w + 4) then [] else [request_error_text])"
    using handler_observed [of "Inl TransportError" ?w2] w2 unfolding run by auto
qed

theorem typing_indicator_failures_witness:
  "table (snd (handle_message 7 (str ''Hello'') delete_down)) 7 =
     Some (Dumped [\<lparr>role = str ''user'', content = str ''Hello''\<rparr>,
                   \<lparr>role = str ''assistant'', content = str ''Hi there'' @ [newline]\<rparr>]) \<and>
   outbox (snd (handle_message 7 (str ''Hello'') delete_down)) =
     [typing_text, str ''Hi there'' @ [newline], request_error_text] \<and>
   llm_calls (snd (handle_message 7 (str ''Hello'') typing_down)) = [] \<and>
   table (snd (handle_message 7 (str ''Hello'') typing_down)) = Map.empty \<and>
   outbox (snd (handle_message 7 (str ''Hello'') typing_down)) = [request_error_text]"
  using typing_indicator_failures [of delete_down 7 "[]" "str ''Hello''" "str ''Hi there''"
      "str ''Hi there'' @ [newline]" 1]
    typing_indicator_failures [of typing_down 7 "[]" "str ''Hello''" "str ''Hi there''"
      "str ''Hi there'' @ [newline]" 1]
  by (simp add: clean_hello clean_format_hi_there chunks_hi_there
      row_context_def delete_down_def typing_down_def calm_world_def)

end
